theory Spec2Isabelle
  imports Main "HOL-Library.Sublist" "HOL-Library.Char_ord" "HOL-Library.List_Lexorder"
begin

section \<open>Order tracking: the relative date parser and the order resolver\<close>

text \<open>
  A shallow embedding of \<^verbatim>\<open>track_order.py\<close>: \<^verbatim>\<open>parse_relative_date\<close>,
  \<^verbatim>\<open>search_orders_by_natural_query\<close> and \<^verbatim>\<open>track_order\<close>.

  Python strings are modelled as \<^typ>\<open>string\<close> restricted to ASCII text: \<^verbatim>\<open>lower\<close>
  changes the letters A to Z only and the whitespace of \<^verbatim>\<open>strip\<close>, \<^verbatim>\<open>split\<close> and of
  the regular expression class \<^verbatim>\<open>\s\<close> is the ASCII whitespace of \<^verbatim>\<open>str.isspace\<close>.
\<close>

subsection \<open>Strings\<close>

definition is_space :: "char \<Rightarrow> bool" where
  "is_space c = (let n = (of_char c :: nat) in (9 \<le> n \<and> n \<le> 13) \<or> (28 \<le> n \<and> n \<le> 32))"

definition is_digit :: "char \<Rightarrow> bool" where
  "is_digit c = (let n = (of_char c :: nat) in 48 \<le> n \<and> n \<le> 57)"

definition lower_char :: "char \<Rightarrow> char" where
  "lower_char c = (let n = (of_char c :: nat) in if 65 \<le> n \<and> n \<le> 90 then char_of (n + 32) else c)"

definition lower :: "string \<Rightarrow> string" where
  "lower s = map lower_char s"

definition strip :: "string \<Rightarrow> string" where
  "strip s = rev (dropWhile is_space (rev (dropWhile is_space s)))"

text \<open>\<^verbatim>\<open>sub in s\<close> on strings: \<^verbatim>\<open>sub\<close> occurs in \<^verbatim>\<open>s\<close> as a contiguous block.\<close>

fun py_in :: "string \<Rightarrow> string \<Rightarrow> bool" where
  "py_in sub [] = (sub = [])"
| "py_in sub (c # cs) = (prefix sub (c # cs) \<or> py_in sub cs)"

text \<open>\<^verbatim>\<open>s.split()\<close>: the maximal blocks of non-whitespace characters, in order.\<close>

fun split_acc :: "string \<Rightarrow> string \<Rightarrow> string list" where
  "split_acc w [] = (if w = [] then [] else [w])"
| "split_acc w (c # cs) =
     (if is_space c then (if w = [] then split_acc [] cs else w # split_acc [] cs)
      else split_acc (w @ [c]) cs)"

definition split :: "string \<Rightarrow> string list" where
  "split s = split_acc [] s"

text \<open>Decimal numerals: \<^verbatim>\<open>str(n)\<close> and \<^verbatim>\<open>int(digits)\<close> for a non-negative \<^verbatim>\<open>n\<close>.\<close>

definition digit_char :: "nat \<Rightarrow> char" where
  "digit_char d = char_of (48 + d)"

fun str_nat :: "nat \<Rightarrow> string" where
  "str_nat n = (if n < 10 then [digit_char n] else str_nat (n div 10) @ [digit_char (n mod 10)])"

declare str_nat.simps [simp del]

definition int_of_digits :: "string \<Rightarrow> int" where
  "int_of_digits ds = foldl (\<lambda>acc c. 10 * acc + (of_char c - 48)) 0 ds"

definition pad2 :: "nat \<Rightarrow> string" where
  "pad2 n = (if n < 10 then CHR ''0'' # str_nat n else str_nat n)"

subsection \<open>Exceptions and effects\<close>

text \<open>
  An exception is a value; \<open>str_exn\<close> is Python's \<^verbatim>\<open>str(e)\<close>. \<open>Exception\<close> stands for
  every exception whose class the code does not tell apart (the store's errors among them).
\<close>

datatype exn =
    Exception string
  | KeyError string
  | OverflowError string
  | ValueError string

fun str_exn :: "exn \<Rightarrow> string" where
  "str_exn (Exception m) = m"
| "str_exn (KeyError k) = [CHR 0x27] @ k @ [CHR 0x27]"
| "str_exn (OverflowError m) = m"
| "str_exn (ValueError m) = m"

text \<open>
  The calls that leave the module, in the order they are made: reading the clock, the SSM
  parameter, the three DynamoDB operations and \<^verbatim>\<open>print\<close>.
\<close>

datatype event =
    ClockNow
  | SsmGetParameter
  | GetItem string string
  | Query string string string
  | Scan string
  | Print string

text \<open>
  A computation returns the events it caused and either the exception it raised or its value.
\<close>

type_synonym 'a io = "event list \<times> (exn + 'a)"

definition ret :: "'a \<Rightarrow> 'a io" where
  "ret x = ([], Inr x)"

definition raise :: "exn \<Rightarrow> 'a io" where
  "raise e = ([], Inl e)"

definition emit :: "event \<Rightarrow> unit io" where
  "emit ev = ([ev], Inr ())"

definition call :: "event \<Rightarrow> (exn + 'a) \<Rightarrow> 'a io" where
  "call ev r = ([ev], r)"

definition bind_io :: "'a io \<Rightarrow> ('a \<Rightarrow> 'b io) \<Rightarrow> 'b io" where
  "bind_io m f =
     (case m of
        (t, Inl e) \<Rightarrow> (t, Inl e)
      | (t, Inr x) \<Rightarrow> (case f x of (t', r) \<Rightarrow> (t @ t', r)))"

text \<open>\<^verbatim>\<open>try: m  except Exception as e: h e\<close>\<close>

definition try_except :: "'a io \<Rightarrow> (exn \<Rightarrow> 'a io) \<Rightarrow> 'a io" where
  "try_except m h =
     (case m of
        (t, Inl e) \<Rightarrow> (case h e of (t', r) \<Rightarrow> (t @ t', r))
      | (t, Inr x) \<Rightarrow> (t, Inr x))"

definition lift :: "(exn + 'a) \<Rightarrow> 'a io" where
  "lift r = ([], r)"

subsection \<open>Dates\<close>

text \<open>
  A \<^verbatim>\<open>datetime\<close> is its proleptic Gregorian ordinal (\<^verbatim>\<open>toordinal()\<close>: day 1 is
  0001-01-01, a Monday; the last day, 9999-12-31, is 3652059) and its time of day in
  microseconds. Subtracting a \<^verbatim>\<open>timedelta\<close> of whole days keeps the time of day.
\<close>

record datetime =
  ordinal :: int
  time_of_day :: int

definition weekday :: "datetime \<Rightarrow> int" where
  "weekday d = (ordinal d + 6) mod 7"

text \<open>
  \<^verbatim>\<open>timedelta(days=n)\<close> for \<^verbatim>\<open>n \<ge> 0\<close>: CPython refuses more than 999999999 days, with a
  different message once \<^verbatim>\<open>n\<close> does not fit a C int.
\<close>

definition timedelta :: "int \<Rightarrow> exn + int" where
  "timedelta n =
     (if n > 2147483647 then Inl (OverflowError ''Python int too large to convert to C int'')
      else if n > 999999999 then
        Inl (OverflowError (''days='' @ str_nat (nat n) @ ''; must have magnitude <= 999999999''))
      else Inr n)"

definition valid_datetime :: "datetime \<Rightarrow> bool" where
  "valid_datetime d = (1 \<le> ordinal d \<and> ordinal d \<le> 3652059)"

text \<open>\<^verbatim>\<open>today - delta\<close>: the result must be a date of the years 1 to 9999.\<close>

definition minus_days :: "datetime \<Rightarrow> int \<Rightarrow> exn + datetime" where
  "minus_days d n =
     (if ordinal d - n < 1 \<or> ordinal d - n > 3652059
      then Inl (OverflowError ''date value out of range'')
      else Inr (d\<lparr>ordinal := ordinal d - n\<rparr>))"

text \<open>
  The civil date of an ordinal, as (year, month, day), and
  \<^verbatim>\<open>strftime('%Y-%m-%d')\<close> (the year is not padded, as with glibc; it has four digits
  from the year 1000 on).
\<close>

definition civil :: "int \<Rightarrow> int \<times> int \<times> int" where
  "civil n =
     (let z = n + 305;
          era = z div 146097;
          doe = z - era * 146097;
          yoe = (doe - doe div 1460 + doe div 36524 - doe div 146096) div 365;
          doy = doe - (365 * yoe + yoe div 4 - yoe div 100);
          mp = (5 * doy + 2) div 153;
          d = doy - (153 * mp + 2) div 5 + 1;
          m = (if mp < 10 then mp + 3 else mp - 9);
          y = yoe + era * 400 + (if m \<le> 2 then 1 else 0)
      in (y, m, d))"

definition strftime :: "datetime \<Rightarrow> string" where
  "strftime dt =
     (case civil (ordinal dt) of
        (y, m, d) \<Rightarrow> str_nat (nat y) @ ''-'' @ pad2 (nat m) @ ''-'' @ pad2 (nat d))"

subsection \<open>Regular expressions\<close>

text \<open>
  The patterns of \<^verbatim>\<open>time_patterns\<close> are sequences of items: one character of a class, an
  optional one (\<^verbatim>\<open>?\<close>) or one or more of them (\<^verbatim>\<open>+\<close>). The matcher is the backtracking
  one of \<^verbatim>\<open>re\<close>: an item offers the numbers of characters it may take in the order of
  preference (greedy: most first), and the first path on which the rest of the pattern
  matches wins. \<^verbatim>\<open>re.search\<close> takes the leftmost position at which the pattern matches.
\<close>

datatype atom = Lit char | Digit | Space

datatype item = One atom | Opt atom | Plus atom

fun m_atom :: "atom \<Rightarrow> char \<Rightarrow> bool" where
  "m_atom (Lit a) c = (a = c)"
| "m_atom Digit c = is_digit c"
| "m_atom Space c = is_space c"

fun m_item :: "item \<Rightarrow> string \<Rightarrow> nat list" where
  "m_item (One a) s = (case s of [] \<Rightarrow> [] | c # cs \<Rightarrow> if m_atom a c then [1] else [])"
| "m_item (Opt a) s = (case s of [] \<Rightarrow> [0] | c # cs \<Rightarrow> if m_atom a c then [1, 0] else [0])"
| "m_item (Plus a) s = rev [1 ..< Suc (length (takeWhile (m_atom a) s))]"

fun first_some :: "('a \<Rightarrow> 'b option) \<Rightarrow> 'a list \<Rightarrow> 'b option" where
  "first_some f [] = None"
| "first_some f (x # xs) = (case f x of Some y \<Rightarrow> Some y | None \<Rightarrow> first_some f xs)"

text \<open>
  \<open>m_seq p s\<close>: the pattern matched at the start of \<open>s\<close>; the result lists how many
  characters each item took.
\<close>

fun m_seq :: "item list \<Rightarrow> string \<Rightarrow> nat list option" where
  "m_seq [] s = Some []"
| "m_seq (i # is) s = first_some (\<lambda>k. map_option ((#) k) (m_seq is (drop k s))) (m_item i s)"

text \<open>
  \<open>re_search p s\<close>: the text matched at the leftmost match, split by item. The first
  block is \<^verbatim>\<open>group(1)\<close> for the patterns that start with \<^verbatim>\<open>(\d+)\<close>.
\<close>

fun blocks :: "nat list \<Rightarrow> string \<Rightarrow> string list" where
  "blocks [] s = []"
| "blocks (k # ks) s = take k s # blocks ks (drop k s)"

fun re_search :: "item list \<Rightarrow> string \<Rightarrow> string list option" where
  "re_search p [] = map_option (\<lambda>ks. blocks ks []) (m_seq p [])"
| "re_search p (c # cs) =
     (case m_seq p (c # cs) of
        Some ks \<Rightarrow> Some (blocks ks (c # cs))
      | None \<Rightarrow> re_search p cs)"

definition lit :: "string \<Rightarrow> item list" where
  "lit s = map (\<lambda>c. One (Lit c)) s"

subsection \<open>Orders and the store\<close>

text \<open>
  An order is a DynamoDB item: a dictionary in which any attribute may be missing. The
  attributes that the resolver reads are fields (\<open>None\<close>: the key is absent); the others
  (total, address, items), read only by \<^verbatim>\<open>format_order_status\<close>, are the rest of the record.
  \<open>match_score\<close> is the key that the search adds.
\<close>

record order =
  order_id :: "string option"
  product_name :: "string option"
  order_date :: "string option"
  status :: "string option"
  match_score :: "int option"

text \<open>
  The world outside: the clock, the SSM parameter store and the DynamoDB table. Each
  operation either raises or answers. \<open>ssm_get_parameter env k\<close> is the answer to the
  call after \<open>k\<close> earlier ones of the same run (a run asks at most twice). A DynamoDB
  response holds the key \<^verbatim>\<open>Item\<close> (\<^verbatim>\<open>Items\<close>) or not.
\<close>

record 'a env =
  now :: datetime
  ssm_get_parameter :: "nat \<Rightarrow> exn + string"
  get_item :: "string \<Rightarrow> string \<Rightarrow> exn + 'a order_scheme option"
  query :: "string \<Rightarrow> string \<Rightarrow> string \<Rightarrow> exn + 'a order_scheme list option"
  scan :: "string \<Rightarrow> exn + 'a order_scheme list option"

text \<open>Truth value of an \<^verbatim>\<open>Optional[str]\<close>: \<^verbatim>\<open>None\<close> and the empty string are false.\<close>

fun truthy :: "string option \<Rightarrow> bool" where
  "truthy None = False"
| "truthy (Some s) = (s \<noteq> [])"

definition get_order_tracking_table :: "'a env \<Rightarrow> nat \<Rightarrow> string io" where
  "get_order_tracking_table env k =
     try_except (call SsmGetParameter (ssm_get_parameter env k))
       (\<lambda>e. raise (Exception (''Failed to get order tracking table: '' @ str_exn e)))"

subsection \<open>parse_relative_date\<close>

definition days_of_week :: "(string \<times> int) list" where
  "days_of_week =
     [(''monday'', 0), (''tuesday'', 1), (''wednesday'', 2), (''thursday'', 3),
      (''friday'', 4), (''saturday'', 5), (''sunday'', 6)]"

text \<open>The first loop: the first weekday, in the order of the dictionary, whose phrase occurs.\<close>

fun find_last_day :: "(string \<times> int) list \<Rightarrow> string \<Rightarrow> int option" where
  "find_last_day [] s = None"
| "find_last_day ((day_name, day_num) # rest) s =
     (if py_in (''last '' @ day_name) s then Some day_num else find_last_day rest s)"

datatype unit_kind = Days | Weeks | Months | Yesterday | Last_week | Last_month

definition time_patterns :: "(item list \<times> unit_kind) list" where
  "time_patterns =
     [([Plus Digit, Plus Space] @ lit ''day'' @ [Opt (Lit CHR ''s''), Plus Space] @ lit ''ago'', Days),
      ([Plus Digit, Plus Space] @ lit ''week'' @ [Opt (Lit CHR ''s''), Plus Space] @ lit ''ago'', Weeks),
      ([Plus Digit, Plus Space] @ lit ''month'' @ [Opt (Lit CHR ''s''), Plus Space] @ lit ''ago'', Months),
      (lit ''yesterday'', Yesterday),
      (lit ''last'' @ [Plus Space] @ lit ''week'', Last_week),
      (lit ''last'' @ [Plus Space] @ lit ''month'', Last_month)]"

text \<open>
  \<^verbatim>\<open>int(match.group(1))\<close>: the interpreter refuses a numeral of more than 4300 digits.
\<close>

definition py_int :: "string \<Rightarrow> exn + int" where
  "py_int ds =
     (if length ds > 4300 then
        Inl (ValueError (''Exceeds the limit (4300 digits) for integer string conversion: value has ''
          @ str_nat (length ds) @ '' digits; use sys.set_int_max_str_digits() to increase the limit''))
      else Inr (int_of_digits ds))"

text \<open>\<^verbatim>\<open>today - timedelta(days=n)\<close>\<close>

definition minus_timedelta :: "datetime \<Rightarrow> int \<Rightarrow> exn + datetime" where
  "minus_timedelta today n = (case timedelta n of Inl e \<Rightarrow> Inl e | Inr k \<Rightarrow> minus_days today k)"

definition target_date :: "datetime \<Rightarrow> unit_kind \<Rightarrow> string list \<Rightarrow> exn + datetime" where
  "target_date today u groups =
     (case u of
        Yesterday \<Rightarrow> minus_timedelta today 1
      | Last_week \<Rightarrow> minus_timedelta today (7 * 1)
      | Last_month \<Rightarrow> minus_timedelta today 30
      | _ \<Rightarrow>
          (case py_int (hd groups) of
             Inl e \<Rightarrow> Inl e
           | Inr amount \<Rightarrow>
               (case u of
                  Days \<Rightarrow> minus_timedelta today amount
                | Weeks \<Rightarrow> minus_timedelta today (7 * amount)
                | _ \<Rightarrow> minus_timedelta today (amount * 30))))"

text \<open>The second loop: the first pattern that matches decides.\<close>

fun match_patterns :: "(item list \<times> unit_kind) list \<Rightarrow> datetime \<Rightarrow> string \<Rightarrow> exn + string option" where
  "match_patterns [] today s = Inr None"
| "match_patterns ((pattern, u) # rest) today s =
     (case re_search pattern s of
        Some groups \<Rightarrow>
          (case target_date today u groups of
             Inl e \<Rightarrow> Inl e
           | Inr target \<Rightarrow> Inr (Some (strftime target)))
      | None \<Rightarrow> match_patterns rest today s)"

text \<open>
  What the second loop finds, apart from the date arithmetic: the groups and the unit of
  the first pattern that matches.
\<close>

fun first_match :: "(item list \<times> unit_kind) list \<Rightarrow> string \<Rightarrow> (string list \<times> unit_kind) option" where
  "first_match [] s = None"
| "first_match ((pattern, u) # rest) s =
     (case re_search pattern s of
        Some groups \<Rightarrow> Some (groups, u)
      | None \<Rightarrow> first_match rest s)"

text \<open>
  \<^verbatim>\<open>parse_relative_date(date_string)\<close>. Its only parameter is the text; \<^verbatim>\<open>today\<close> is read
  from the clock (\<^verbatim>\<open>datetime.now()\<close>) on every call.
\<close>

definition parse_relative_date :: "'a env \<Rightarrow> string \<Rightarrow> string option io" where
  "parse_relative_date env date_string =
     bind_io (call ClockNow (Inr (now env))) (\<lambda>today.
       let s = strip (lower date_string) in
       case find_last_day days_of_week s of
         Some day_num \<Rightarrow>
           (let days_back = (weekday today - day_num) mod 7;
                days_back = (if days_back = 0 then 7 else days_back)
            in case minus_timedelta today days_back of
                 Inl e \<Rightarrow> raise e
               | Inr target \<Rightarrow> ret (Some (strftime target)))
       | None \<Rightarrow> lift (match_patterns time_patterns today s))"

subsection \<open>search_orders_by_natural_query\<close>

definition product_keywords :: "string list" where
  "product_keywords =
     [''iphone'', ''macbook'', ''airpods'', ''ipad'', ''watch'', ''tv'', ''headphones'',
      ''laptop'', ''phone'', ''tablet'', ''console'', ''playstation'', ''xbox'']"

text \<open>The three parts of the score of one order, in the order of the loop body.\<close>

definition keyword_score :: "string \<Rightarrow> string \<Rightarrow> int" where
  "keyword_score query_lower pname =
     foldl (\<lambda>score keyword.
        if py_in keyword query_lower \<and> py_in keyword pname then score + 2 else score)
       0 product_keywords"

definition date_score :: "string option \<Rightarrow> string option \<Rightarrow> int" where
  "date_score parsed_date odate =
     (if truthy parsed_date \<and> odate = parsed_date then 3 else 0)"

definition word_score :: "string \<Rightarrow> string \<Rightarrow> int" where
  "word_score query_lower pname =
     foldl (\<lambda>score query_word.
        if length query_word > 3 then
          foldl (\<lambda>score product_word.
             if py_in query_word product_word \<or> py_in product_word query_word
             then score + 1 else score)
            score (split pname)
        else score)
       0 (split query_lower)"

definition score_order :: "string \<Rightarrow> string option \<Rightarrow> 'a order_scheme \<Rightarrow> int" where
  "score_order query_lower parsed_date order =
     (let pname = lower (case product_name order of None \<Rightarrow> [] | Some n \<Rightarrow> n)
      in keyword_score query_lower pname
         + date_score parsed_date (order_date order)
         + word_score query_lower pname)"

text \<open>
  \<^verbatim>\<open>xs.sort(key=f, reverse=True)\<close>: the stable sort of the reversed list, reversed (so
  that equal keys keep their order), as CPython does it.
\<close>

definition sort_reverse :: "('a \<Rightarrow> 'k::linorder) \<Rightarrow> 'a list \<Rightarrow> 'a list" where
  "sort_reverse f xs = rev (sort_key f (rev xs))"

definition get_match_score :: "'a order_scheme \<Rightarrow> int" where
  "get_match_score x = (case match_score x of None \<Rightarrow> 0 | Some v \<Rightarrow> v)"

text \<open>The loop over the orders and the sort.\<close>

definition rank_orders ::
  "string \<Rightarrow> string option \<Rightarrow> 'a order_scheme list \<Rightarrow> 'a order_scheme list" where
  "rank_orders query_lower parsed_date orders =
     sort_reverse get_match_score
       (map (\<lambda>order. order\<lparr>match_score := Some (score_order query_lower parsed_date order)\<rparr>)
          (filter (\<lambda>order. score_order query_lower parsed_date order > 0) orders))"

definition items_or_empty :: "'b list option \<Rightarrow> 'b list" where
  "items_or_empty resp = (case resp of None \<Rightarrow> [] | Some items \<Rightarrow> items)"

text \<open>
  \<open>fetch_orders\<close> is the \<^verbatim>\<open>if customer_id\<close> statement: \<open>None\<close> is the \<^verbatim>\<open>return []\<close> of
  an exception handler. \<open>k\<close> counts the earlier calls of \<^verbatim>\<open>get_order_tracking_table\<close>.
\<close>

definition fetch_orders :: "'a env \<Rightarrow> string \<Rightarrow> string option \<Rightarrow> 'a order_scheme list option io" where
  "fetch_orders env table customer_id =
     (if truthy customer_id then
        try_except
          (bind_io (call (Query table ''customer-index'' (the customer_id))
                      (query env table ''customer-index'' (the customer_id)))
             (\<lambda>response. ret (Some (items_or_empty response))))
          (\<lambda>e. bind_io (emit (Print (''Error querying by customer_id: '' @ str_exn e)))
                  (\<lambda>_. ret None))
      else
        try_except
          (bind_io (call (Scan table) (scan env table))
             (\<lambda>response. ret (Some (items_or_empty response))))
          (\<lambda>e. bind_io (emit (Print (''Error scanning orders: '' @ str_exn e)))
                  (\<lambda>_. ret None)))"

definition search_orders_by_natural_query ::
  "'a env \<Rightarrow> nat \<Rightarrow> string \<Rightarrow> string option \<Rightarrow> 'a order_scheme list io" where
  "search_orders_by_natural_query env k natural_query customer_id =
     bind_io (get_order_tracking_table env k) (\<lambda>table.
       let query_lower = lower natural_query in
       bind_io (parse_relative_date env query_lower) (\<lambda>parsed_date.
         bind_io (fetch_orders env table customer_id) (\<lambda>fetched.
           case fetched of
             None \<Rightarrow> ret []
           | Some orders \<Rightarrow> ret (rank_orders query_lower parsed_date orders))))"

subsection \<open>track_order\<close>

text \<open>\<^verbatim>\<open>order[key]\<close>: a missing key raises \<^verbatim>\<open>KeyError\<close>.\<close>

definition getkey :: "string \<Rightarrow> string option \<Rightarrow> exn + string" where
  "getkey key v = (case v of None \<Rightarrow> Inl (KeyError key) | Some x \<Rightarrow> Inr x)"

text \<open>
  The text shared by the two listings:
  \<^verbatim>\<open>Order {order['order_id']} - {order['product_name']} (Status: {order['status']}, Date: {order['order_date']})\n\<close>
\<close>

definition summary_line :: "'a order_scheme \<Rightarrow> exn + string" where
  "summary_line order =
     (case getkey ''order_id'' (order_id order) of Inl e \<Rightarrow> Inl e | Inr oid \<Rightarrow>
     (case getkey ''product_name'' (product_name order) of Inl e \<Rightarrow> Inl e | Inr pname \<Rightarrow>
     (case getkey ''status'' (status order) of Inl e \<Rightarrow> Inl e | Inr st \<Rightarrow>
     (case getkey ''order_date'' (order_date order) of Inl e \<Rightarrow> Inl e | Inr odate \<Rightarrow>
        Inr (''Order '' @ oid @ '' - '' @ pname @ '' (Status: '' @ st @ '', Date: '' @ odate
             @ '')'' @ [CHR 0x0A])))))"

text \<open>The loop \<^verbatim>\<open>for i, order in enumerate(matching_orders[:5], 1)\<close>, from \<open>i\<close> on.\<close>

fun numbered_lines :: "nat \<Rightarrow> 'a order_scheme list \<Rightarrow> string \<Rightarrow> exn + string" where
  "numbered_lines i [] response = Inr response"
| "numbered_lines i (order # rest) response =
     (case summary_line order of
        Inl e \<Rightarrow> Inl e
      | Inr line \<Rightarrow> numbered_lines (Suc i) rest (response @ str_nat i @ ''. '' @ line))"

definition bullet :: string where
  "bullet = [CHR 0xE2, CHR 0x80, CHR 0xA2]"

fun bullet_lines :: "'a order_scheme list \<Rightarrow> string \<Rightarrow> exn + string" where
  "bullet_lines [] response = Inr response"
| "bullet_lines (order # rest) response =
     (case summary_line order of
        Inl e \<Rightarrow> Inl e
      | Inr line \<Rightarrow> bullet_lines rest (response @ bullet @ '' '' @ line))"

text \<open>The answer for two or more matches.\<close>

definition multiple_matches :: "string \<Rightarrow> 'a order_scheme list \<Rightarrow> exn + string" where
  "multiple_matches natural_query matching_orders =
     (case numbered_lines 1 (take 5 matching_orders)
             (''[LEFT-POINTING MAGNIFYING GLASS] Found '' @ str_nat (length matching_orders)
              @ '' orders matching '' @ [CHR 0x27] @ natural_query @ [CHR 0x27] @ '':''
              @ [CHR 0x0A, CHR 0x0A]) of
        Inl e \<Rightarrow> Inl e
      | Inr response \<Rightarrow>
          Inr ((if length matching_orders > 5
                then response @ [CHR 0x0A] @ ''... and '' @ str_nat (length matching_orders - 5)
                     @ '' more orders.'' @ [CHR 0x0A]
                else response)
               @ [CHR 0x0A] @ ''Please provide a specific order ID for detailed information.''))"

text \<open>The answer for a customer's orders.\<close>

definition recent_orders :: "string \<Rightarrow> 'a order_scheme list \<Rightarrow> exn + string" where
  "recent_orders customer_id orders =
     (let orders = sort_reverse (\<lambda>x. case order_date x of None \<Rightarrow> [] | Some d \<Rightarrow> d) orders
      in case bullet_lines (take 5 orders)
                (''[PACKAGE] Recent orders for customer '' @ customer_id @ '':''
                 @ [CHR 0x0A, CHR 0x0A]) of
           Inl e \<Rightarrow> Inl e
         | Inr response_text \<Rightarrow>
             Inr (response_text @ [CHR 0x0A]
                  @ ''Provide a specific order ID for detailed tracking information.''))"

definition not_found_order :: "string \<Rightarrow> string" where
  "not_found_order oid =
     ''[CROSS MARK] Order '' @ oid @ '' not found. Please check the order ID and try again.''"

definition not_found_tracking :: "string \<Rightarrow> string" where
  "not_found_tracking tid =
     ''[CROSS MARK] No order found with tracking ID '' @ tid
     @ ''. Please verify the tracking number.''"

definition not_found_query :: "string \<Rightarrow> string" where
  "not_found_query q =
     ''[CROSS MARK] No orders found matching '' @ [CHR 0x27] @ q @ [CHR 0x27]
     @ ''. Try being more specific or provide an order ID.''"

definition not_found_customer :: "string \<Rightarrow> string" where
  "not_found_customer cid = ''[CROSS MARK] No orders found for customer '' @ cid @ ''.''"

definition insufficient :: string where
  "insufficient =
     ''[CROSS MARK] Please provide an order ID, tracking ID, customer ID, or describe your order (e.g., ''
     @ [CHR 0x27] @ ''my iPhone order from last Friday'' @ [CHR 0x27] @ '').''"

text \<open>
  \<^verbatim>\<open>track_order(order_id, tracking_id, customer_id, natural_query)\<close>. The text of one order,
  \<^verbatim>\<open>format_order_status\<close>, is the parameter \<open>format_order_status\<close>: it formats amounts as
  floating point numbers and no property below depends on its text; it may raise.
\<close>

definition by_order_id ::
  "('a order_scheme \<Rightarrow> exn + string) \<Rightarrow> 'a env \<Rightarrow> string \<Rightarrow> string \<Rightarrow> string io" where
  "by_order_id format_order_status env table oid =
     try_except
       (bind_io (call (GetItem table oid) (get_item env table oid)) (\<lambda>response.
          case response of
            Some order \<Rightarrow> lift (format_order_status order)
          | None \<Rightarrow> ret (not_found_order oid)))
       (\<lambda>e. ret (''[CROSS MARK] Error looking up order '' @ oid @ '': '' @ str_exn e))"

definition by_tracking_id ::
  "('a order_scheme \<Rightarrow> exn + string) \<Rightarrow> 'a env \<Rightarrow> string \<Rightarrow> string \<Rightarrow> string io" where
  "by_tracking_id format_order_status env table tid =
     try_except
       (bind_io (call (Query table ''tracking-index'' tid) (query env table ''tracking-index'' tid))
          (\<lambda>response.
             case response of
               None \<Rightarrow> raise (KeyError ''Items'')
             | Some [] \<Rightarrow> ret (not_found_tracking tid)
             | Some (order # _) \<Rightarrow> lift (format_order_status order)))
       (\<lambda>e. ret (''[CROSS MARK] Error looking up tracking ID '' @ tid @ '': '' @ str_exn e))"

definition by_natural_query ::
  "('a order_scheme \<Rightarrow> exn + string) \<Rightarrow> 'a env \<Rightarrow> string \<Rightarrow> string option \<Rightarrow> string io" where
  "by_natural_query format_order_status env q customer_id =
     bind_io (search_orders_by_natural_query env 1 q customer_id) (\<lambda>matching_orders.
       case matching_orders of
         [] \<Rightarrow> ret (not_found_query q)
       | [order] \<Rightarrow> lift (format_order_status order)
       | _ \<Rightarrow> lift (multiple_matches q matching_orders))"

definition by_customer_id :: "'a env \<Rightarrow> string \<Rightarrow> string \<Rightarrow> string io" where
  "by_customer_id env table cid =
     try_except
       (bind_io (call (Query table ''customer-index'' cid) (query env table ''customer-index'' cid))
          (\<lambda>response.
             let orders = items_or_empty response in
             if orders = [] then ret (not_found_customer cid)
             else lift (recent_orders cid orders)))
       (\<lambda>e. ret (''[CROSS MARK] Error looking up orders for customer '' @ cid @ '': ''
                  @ str_exn e))"

definition track_order ::
  "('a order_scheme \<Rightarrow> exn + string) \<Rightarrow> 'a env \<Rightarrow>
   string option \<Rightarrow> string option \<Rightarrow> string option \<Rightarrow> string option \<Rightarrow> string io" where
  "track_order format_order_status env order_id_arg tracking_id customer_id natural_query =
     try_except
       (bind_io (get_order_tracking_table env 0) (\<lambda>table.
          if truthy order_id_arg then by_order_id format_order_status env table (the order_id_arg)
          else if truthy tracking_id then
            by_tracking_id format_order_status env table (the tracking_id)
          else if truthy natural_query then
            by_natural_query format_order_status env (the natural_query) customer_id
          else if truthy customer_id then by_customer_id env table (the customer_id)
          else ret insufficient))
       (\<lambda>e. ret (''[CROSS MARK] Error tracking order: '' @ str_exn e))"

subsection \<open>Sample data\<close>

text \<open>Monday 2024-06-10, noon, and the day after.\<close>

definition monday_noon :: datetime where
  "monday_noon = \<lparr>ordinal = 739047, time_of_day = 43200000000\<rparr>"

definition tuesday_noon :: datetime where
  "tuesday_noon = \<lparr>ordinal = 739048, time_of_day = 43200000000\<rparr>"

definition sample_order :: "string \<Rightarrow> string \<Rightarrow> string \<Rightarrow> order" where
  "sample_order oid pname odate =
     \<lparr>order_id = Some oid, product_name = Some pname, order_date = Some odate,
      status = Some ''shipped'', match_score = None\<rparr>"

definition sample_orders :: "order list" where
  "sample_orders =
     [sample_order ''ORD-1'' ''Standing Desk'' ''2024-06-01'',
      sample_order ''ORD-2'' ''iPhone 15'' ''2024-06-01'',
      sample_order ''ORD-3'' ''MacBook Pro'' ''2024-06-07'',
      sample_order ''ORD-4'' ''iPhone 15'' ''2024-06-07'']"

definition sample_env :: "unit env" where
  "sample_env =
     \<lparr>now = monday_noon,
      ssm_get_parameter = (\<lambda>k. Inr ''orders''),
      get_item = (\<lambda>table key. Inr (if key = ''ORD-2'' then Some (sample_orders ! 1) else None)),
      query = (\<lambda>table index v. Inr (Some [])),
      scan = (\<lambda>table. Inr (Some sample_orders))\<rparr>"

text \<open>A world in which every operation of the table fails.\<close>

definition unavailable_env :: "unit env" where
  "unavailable_env =
     sample_env
       \<lparr>get_item := (\<lambda>table key. Inl (Exception ''ServiceUnavailable'')),
        query := (\<lambda>table index v. Inl (Exception ''ServiceUnavailable'')),
        scan := (\<lambda>table. Inl (Exception ''ServiceUnavailable''))\<rparr>"

definition sample_format :: "order \<Rightarrow> exn + string" where
  "sample_format order = Inr (''Order Status of '' @ (case order_id order of None \<Rightarrow> ''N/A'' | Some i \<Rightarrow> i))"

section \<open>Properties\<close>

subsection \<open>Computations\<close>

lemma bind_io_Inl [simp]: "bind_io (t, Inl e) f = (t, Inl e)"
  by (simp add: bind_io_def)

lemma bind_io_Inr [simp]: "bind_io (t, Inr x) f = (t @ fst (f x), snd (f x))"
  by (simp add: bind_io_def split: prod.splits)

lemma try_except_Inl [simp]: "try_except (t, Inl e) h = (t @ fst (h e), snd (h e))"
  by (simp add: try_except_def split: prod.splits)

lemma try_except_Inr [simp]: "try_except (t, Inr x) h = (t, Inr x)"
  by (simp add: try_except_def)

lemmas io_defs = ret_def raise_def emit_def call_def lift_def

lemma get_table_ok:
  "ssm_get_parameter env k = Inr table \<Longrightarrow>
   get_order_tracking_table env k = ([SsmGetParameter], Inr table)"
  by (simp add: get_order_tracking_table_def io_defs)

lemma get_table_fail:
  "ssm_get_parameter env k = Inl e \<Longrightarrow>
   get_order_tracking_table env k =
     ([SsmGetParameter], Inl (Exception (''Failed to get order tracking table: '' @ str_exn e)))"
  by (simp add: get_order_tracking_table_def io_defs)

lemma match_patterns_first_match:
  "match_patterns ps today s =
     (case first_match ps s of
        None \<Rightarrow> Inr None
      | Some (groups, u) \<Rightarrow>
          (case target_date today u groups of
             Inl e \<Rightarrow> Inl e
           | Inr target \<Rightarrow> Inr (Some (strftime target))))"
  by (induction ps today s rule: match_patterns.induct) (auto split: option.splits)

subsection \<open>The date parser and the clock\<close>


lemma case_sum_lift:
  "(case r of Inl e \<Rightarrow> raise e | Inr t \<Rightarrow> ret (f t)) = lift (case r of Inl e \<Rightarrow> Inl e | Inr t \<Rightarrow> Inr (f t))"
  by (cases r) (simp_all add: io_defs)

lemma minus_timedelta_date_only:
  "ordinal a = ordinal b \<Longrightarrow>
   (case minus_timedelta a n of Inl e \<Rightarrow> Inl e | Inr t \<Rightarrow> Inr (Some (strftime t))) =
   (case minus_timedelta b n of Inl e \<Rightarrow> Inl e | Inr t \<Rightarrow> Inr (Some (strftime t)))"
  by (simp add: minus_timedelta_def minus_days_def strftime_def split: sum.splits)

lemma target_date_date_only:
  assumes "ordinal a = ordinal b"
  shows "(case target_date a u g of Inl e \<Rightarrow> Inl e | Inr t \<Rightarrow> Inr (Some (strftime t))) =
   (case target_date b u g of Inl e \<Rightarrow> Inl e | Inr t \<Rightarrow> Inr (Some (strftime t)))"
  unfolding target_date_def
  by (cases u; cases "py_int (hd g)"; simp only: unit_kind.case sum.case minus_timedelta_date_only [OF assms])

lemma match_patterns_date_only:
  assumes "ordinal a = ordinal b"
  shows "match_patterns ps a s = match_patterns ps b s"
  unfolding match_patterns_first_match
  by (cases "first_match ps s") (auto simp only: option.case prod.case target_date_date_only [OF assms])

lemma parse_relative_date_trace: "fst (parse_relative_date env s) = [ClockNow]"
  by (simp add: parse_relative_date_def io_defs Let_def split: option.splits sum.splits)

lemma yesterday_monday: "parse_relative_date sample_env ''yesterday'' = ([ClockNow], Inr (Some ''2024-06-09''))"
  by code_simp

lemma yesterday_tuesday: "parse_relative_date (sample_env\<lparr>now := tuesday_noon\<rparr>) ''yesterday'' = ([ClockNow], Inr (Some ''2024-06-10''))"
  by code_simp

text \<open>
  Claim C3, as amended. \<^verbatim>\<open>parse_relative_date\<close> has no parameter for the reference date:
  every call reads the clock, and that is its only effect. Its result is a function of the
  text and of the calendar date that the clock shows: two worlds whose clocks show the same
  date, at any time of day and with any store, give the same result.
\<close>

theorem parse_relative_date_clock:
  "fst (parse_relative_date env s) = [ClockNow] \<and>
   (ordinal (now env) = ordinal (now env') \<longrightarrow>
      parse_relative_date env s = parse_relative_date env' s)"
proof (intro conjI impI)
  show "fst (parse_relative_date env s) = [ClockNow]"
    by (rule parse_relative_date_trace)
next
  assume same: "ordinal (now env) = ordinal (now env')"
  then have wd: "weekday (now env) = weekday (now env')"
    by (simp add: weekday_def)
  show "parse_relative_date env s = parse_relative_date env' s"
  proof (cases "find_last_day days_of_week (strip (lower s))")
    case None
    then show ?thesis
      by (simp add: parse_relative_date_def io_defs match_patterns_date_only [OF same])
  next
    case (Some n)
    then show ?thesis
      using minus_timedelta_date_only [OF same]
      by (simp add: parse_relative_date_def call_def Let_def case_sum_lift wd)
  qed
qed

theorem parse_relative_date_clock_witness:
  "ordinal (now sample_env) = ordinal (now (sample_env\<lparr>now := monday_noon\<lparr>time_of_day := 0\<rparr>\<rparr>)) \<and>
   parse_relative_date sample_env ''yesterday'' =
     parse_relative_date (sample_env\<lparr>now := monday_noon\<lparr>time_of_day := 0\<rparr>\<rparr>) ''yesterday''"
  using parse_relative_date_clock [of sample_env "''yesterday''" "sample_env\<lparr>now := monday_noon\<lparr>time_of_day := 0\<rparr>\<rparr>"]
  by (simp add: sample_env_def)

text \<open>
  Claim C3 as stated fails: the same text, parsed on Monday 2024-06-10 and on the day
  after, gives two different dates, and the caller has no argument to fix the date.
\<close>

theorem parse_relative_date_not_injectable:
  "parse_relative_date sample_env ''yesterday'' \<noteq>
   parse_relative_date (sample_env\<lparr>now := tuesday_noon\<rparr>) ''yesterday''"
  by (simp add: yesterday_monday yesterday_tuesday)

subsection \<open>A count of zero\<close>


lemma zero_ago_normal:
  "strip (lower ''0 days ago'') = ''0 days ago''"
  "strip (lower ''0 weeks ago'') = ''0 weeks ago''"
  "strip (lower ''0 months ago'') = ''0 months ago''"
  by code_simp+

lemma zero_ago_no_weekday:
  "find_last_day days_of_week ''0 days ago'' = None"
  "find_last_day days_of_week ''0 weeks ago'' = None"
  "find_last_day days_of_week ''0 months ago'' = None"
  by code_simp+

lemma zero_ago_first_match:
  "first_match time_patterns ''0 days ago'' =
     Some ([''0'', '' '', ''d'', ''a'', ''y'', ''s'', '' '', ''a'', ''g'', ''o''], Days)"
  "first_match time_patterns ''0 weeks ago'' =
     Some ([''0'', '' '', ''w'', ''e'', ''e'', ''k'', ''s'', '' '', ''a'', ''g'', ''o''], Weeks)"
  "first_match time_patterns ''0 months ago'' =
     Some ([''0'', '' '', ''m'', ''o'', ''n'', ''t'', ''h'', ''s'', '' '', ''a'', ''g'', ''o''], Months)"
  by code_simp+

lemma minus_timedelta_zero: "valid_datetime d \<Longrightarrow> minus_timedelta d 0 = Inr d"
  by (simp add: minus_timedelta_def timedelta_def minus_days_def valid_datetime_def)

lemma py_int_zero: "py_int ''0'' = Inr 0"
  by (simp add: py_int_def int_of_digits_def)

lemma strftime_monday_noon: "strftime monday_noon = ''2024-06-10''"
  by code_simp

text \<open>
  Claim C10. With a count of zero the three forms \<^verbatim>\<open>0 days ago\<close>, \<^verbatim>\<open>0 weeks ago\<close> and
  \<^verbatim>\<open>0 months ago\<close> are recognised and give the date of today itself, for every date that
  the clock can show; so the result of an "ago" form need not lie strictly in the past.
\<close>

theorem zero_ago_is_today:
  assumes "valid_datetime (now env)"
  shows "parse_relative_date env ''0 days ago'' = ([ClockNow], Inr (Some (strftime (now env)))) \<and>
         parse_relative_date env ''0 weeks ago'' = ([ClockNow], Inr (Some (strftime (now env)))) \<and>
         parse_relative_date env ''0 months ago'' = ([ClockNow], Inr (Some (strftime (now env))))"
  using assms
  by (simp add: parse_relative_date_def io_defs zero_ago_normal zero_ago_no_weekday
      match_patterns_first_match zero_ago_first_match target_date_def py_int_zero
      minus_timedelta_zero)

theorem zero_ago_is_today_witness:
  "valid_datetime (now sample_env) \<and>
   parse_relative_date sample_env ''0 days ago'' = ([ClockNow], Inr (Some ''2024-06-10'')) \<and>
   parse_relative_date sample_env ''0 weeks ago'' = ([ClockNow], Inr (Some ''2024-06-10'')) \<and>
   parse_relative_date sample_env ''0 months ago'' = ([ClockNow], Inr (Some ''2024-06-10''))"
proof -
  have v: "valid_datetime (now sample_env)"
    by (simp add: sample_env_def monday_noon_def valid_datetime_def)
  have n: "now sample_env = monday_noon"
    by (simp add: sample_env_def)
  show ?thesis
    using v zero_ago_is_today [OF v] by (simp add: n strftime_monday_noon)
qed

subsection \<open>No identifier at all\<close>

lemma track_order_table_failure_value:
  "track_order sample_format
     (sample_env\<lparr>ssm_get_parameter := \<lambda>k. Inl (Exception ''ParameterNotFound'')\<rparr>)
     None None None None =
     ([SsmGetParameter],
      Inr ''[CROSS MARK] Error tracking order: Failed to get order tracking table: ParameterNotFound'')"
  by (simp add: track_order_def get_table_fail io_defs sample_env_def)

text \<open>
  Claim C8, as amended. For the query without any identifier (each of the four arguments
  \<^verbatim>\<open>None\<close> or empty), once the name of the table has been read the answer is the request
  for an identifier, whatever the table holds or does; when reading the name of the table
  fails, the answer is the text of that error instead.
\<close>

theorem track_order_no_identifiers:
  assumes "\<not> truthy oid" "\<not> truthy tid" "\<not> truthy cid" "\<not> truthy nq"
  shows "(ssm_get_parameter env 0 = Inr table \<longrightarrow>
            track_order fmt env oid tid cid nq = ([SsmGetParameter], Inr insufficient)) \<and>
         (ssm_get_parameter env 0 = Inl e \<longrightarrow>
            track_order fmt env oid tid cid nq =
              ([SsmGetParameter],
               Inr (''[CROSS MARK] Error tracking order: Failed to get order tracking table: ''
                    @ str_exn e)))"
  using assms by (simp add: track_order_def get_table_ok get_table_fail io_defs)

theorem track_order_no_identifiers_witness:
  "\<not> truthy None \<and> ssm_get_parameter sample_env 0 = Inr ''orders'' \<and>
   track_order sample_format sample_env None None None None = ([SsmGetParameter], Inr insufficient) \<and>
   ssm_get_parameter (sample_env\<lparr>ssm_get_parameter := \<lambda>k. Inl (Exception ''ParameterNotFound'')\<rparr>) 0
     = Inl (Exception ''ParameterNotFound'') \<and>
   track_order sample_format
     (sample_env\<lparr>ssm_get_parameter := \<lambda>k. Inl (Exception ''ParameterNotFound'')\<rparr>)
     None None None None =
     ([SsmGetParameter],
      Inr ''[CROSS MARK] Error tracking order: Failed to get order tracking table: ParameterNotFound'')"
  using track_order_no_identifiers [of None None None None sample_env "''orders''" sample_format]
    track_order_no_identifiers [of None None None None
      "sample_env\<lparr>ssm_get_parameter := \<lambda>k. Inl (Exception ''ParameterNotFound'')\<rparr>" _
      sample_format "Exception ''ParameterNotFound''"]
  by (simp add: sample_env_def)

text \<open>
  Claim C8 as stated fails: the table is looked up before the arguments are examined, so
  with a failing parameter store the empty query is answered by the error text.
\<close>

theorem track_order_no_identifiers_table_failure:
  "snd (track_order sample_format
     (sample_env\<lparr>ssm_get_parameter := \<lambda>k. Inl (Exception ''ParameterNotFound'')\<rparr>)
     None None None None) \<noteq> Inr insufficient"
  by (simp add: track_order_table_failure_value insufficient_def)

end
